theory Spec2Isabelle
  imports Main
begin

section \<open>JavaScript values used by the Terria class\<close>

text \<open>
  The errors the modelled code can raise: Cesium's \<open>RuntimeError\<close> (thrown by
  \<open>addModel\<close>), the \<open>TypeError\<close> of the language (a property read on
  \<open>null\<close> or \<open>undefined\<close>, a call of something that is not a function), and
  whatever a rejected request or a collaborator reports.
\<close>

datatype error = RuntimeError string | TypeError | OtherError string

text \<open>
  A constructor is named by a string; an object carries the constructors whose
  prototype lies on its prototype chain, so that \<open>x instanceof C\<close> is membership.
\<close>

type_synonym Class = string

record JSObject =
  protoChain :: "Class list"

definition instanceof :: "'a JSObject_scheme \<Rightarrow> Class \<Rightarrow> bool" where
  "instanceof x C = (C \<in> set (protoChain x))"

definition Cesium :: Class where
  "Cesium = ''Cesium''"

definition Leaflet :: Class where
  "Leaflet = ''Leaflet''"

definition NoViewer :: Class where
  "NoViewer = ''NoViewer''"

text \<open>
  The values \<open>loadJson5\<close> delivers and the code passes on. Objects are association
  lists read with \<open>map_of\<close>; a property written twice keeps its first position
  and its last value, and nothing below depends on the order of the properties. The
  code tests a number only for being truthy, so numbers are integers here.
\<close>

datatype json =
    JUndefined
  | JNull
  | JBool bool
  | JNum int
  | JStr string
  | JArr "json list"
  | JObj "(string \<times> json) list"

section \<open>The model registry\<close>

text \<open>
  Modelled from the spec: the type \<open>ModelReference\<close> (lib/Traits/ModelReference) is
  not among the sources. A reference is either the id of a model, a string, or the mark
  of a removed model; \<open>ModelReference.isRemoved\<close> tells the two apart.
\<close>

datatype ModelReference = ModelId string | RemovedModelId string

fun isRemoved :: "ModelReference \<Rightarrow> bool" where
  "isRemoved (RemovedModelId r) = True"
| "isRemoved (ModelId s) = False"

record BaseModel = JSObject +
  model_id :: ModelReference

type_synonym GlobeOrMap = JSObject

record TerriaViewer = JSObject +
  tv_currentViewer :: "GlobeOrMap option"

text \<open>
  The fields of \<open>Terria\<close> that the modelled methods read or write. The catalog group
  is kept abstract (\<open>'g\<close>): only \<open>updateModelFromJson\<close> touches it.
\<close>

record 'g Terria =
  models :: "string \<rightharpoonup> BaseModel"
  mainViewer :: "TerriaViewer option"
  appName :: "string option"
  userProperties :: "string \<rightharpoonup> json"
  stories :: json
  catalogGroup :: 'g

text \<open>
  \<open>getModelById\<close>: the helper \<open>instanceOf\<close> (lib/Core/instanceOf) is not among the
  sources and is a parameter; it receives the result of \<open>models.get\<close>, which is
  \<open>undefined\<close> (\<open>None\<close>) for an id that is not registered.
\<close>

definition getModelById ::
  "(Class \<Rightarrow> BaseModel option \<Rightarrow> bool) \<Rightarrow> 'g Terria \<Rightarrow> Class \<Rightarrow> ModelReference
     \<Rightarrow> error + BaseModel option" where
  "getModelById instanceOf t type ref =
     (case ref of
        RemovedModelId r \<Rightarrow> Inr None
      | ModelId i \<Rightarrow>
          (let model = models t i
           in if instanceOf type model then Inr model else Inr None))"

text \<open>
  \<open>addModel\<close> returns early for a removed reference, throws when the id is taken and
  stores the model otherwise. The second component is the registry afterwards.
\<close>

definition addModel :: "'g Terria \<Rightarrow> BaseModel \<Rightarrow> (error + unit) \<times> 'g Terria" where
  "addModel t model =
     (case model_id model of
        RemovedModelId r \<Rightarrow> (Inr (), t)
      | ModelId i \<Rightarrow>
          if models t i \<noteq> None
          then (Inl (RuntimeError ''A model with the specified ID already exists.''), t)
          else (Inr (), t\<lparr>models := (models t)(i \<mapsto> model)\<rparr>))"

section \<open>Viewer getters\<close>

text \<open>
  \<open>new NoViewer(this)\<close>: an object of class \<open>NoViewer\<close>.
\<close>

definition new_NoViewer :: "'g Terria \<Rightarrow> GlobeOrMap" where
  "new_NoViewer t = \<lparr>protoChain = [NoViewer]\<rparr>"

text \<open>
  \<open>(this.mainViewer && this.mainViewer.currentViewer) || new NoViewer(this)\<close>.
  \<open>None\<close> is \<open>undefined\<close>, the only falsy value of these types; \<open>a && b\<close> is
  \<open>a\<close> when \<open>a\<close> is falsy and \<open>b\<close> otherwise, \<open>a || b\<close> is \<open>a\<close> when
  \<open>a\<close> is truthy and \<open>b\<close> otherwise.
\<close>

definition currentViewer :: "'g Terria \<Rightarrow> GlobeOrMap option" where
  "currentViewer t =
     (let a = (case mainViewer t of None \<Rightarrow> None | Some mv \<Rightarrow> tv_currentViewer mv)
      in case a of None \<Rightarrow> Some (new_NoViewer t) | Some v \<Rightarrow> Some v)"

text \<open>
  Modelled from the spec: \<open>isDefined\<close> (lib/Core/isDefined) is not among the sources;
  a value is defined when it is not \<open>undefined\<close>.
\<close>

definition isDefined :: "'a option \<Rightarrow> bool" where
  "isDefined v = (v \<noteq> None)"

text \<open>
  The getters \<open>cesium\<close> and \<open>leaflet\<close>; falling off the end of the getter returns
  \<open>undefined\<close>.
\<close>

definition cesium :: "'g Terria \<Rightarrow> TerriaViewer option" where
  "cesium t =
     (if isDefined (mainViewer t) \<and> (case mainViewer t of None \<Rightarrow> False | Some mv \<Rightarrow> instanceof mv Cesium)
      then mainViewer t else None)"

definition leaflet :: "'g Terria \<Rightarrow> TerriaViewer option" where
  "leaflet t =
     (if isDefined (mainViewer t) \<and> (case mainViewer t of None \<Rightarrow> False | Some mv \<Rightarrow> instanceof mv Leaflet)
      then mainViewer t else None)"

section \<open>User properties\<close>

definition getUserProperty :: "'g Terria \<Rightarrow> string \<Rightarrow> json" where
  "getUserProperty t key = JUndefined"

section \<open>Local properties\<close>

text \<open>
  What evaluating \<open>window.localStorage\<close> gives: it may throw (a SecurityError when third
  party cookies are blocked, a ReferenceError where there is no window), it may be
  \<open>undefined\<close> or \<open>null\<close>, or it is a storage, a map from keys to strings.
\<close>

datatype StorageRef = StorageUndefined | StorageNull | Storage "string \<rightharpoonup> string"

record Window =
  localStorage :: "error + StorageRef"

text \<open>Cesium's \<open>defined\<close>: neither \<open>undefined\<close> nor \<open>null\<close>.\<close>

fun defined :: "StorageRef \<Rightarrow> bool" where
  "defined StorageUndefined = False"
| "defined StorageNull = False"
| "defined (Storage m) = True"

text \<open>
  \<open>getItem\<close> gives \<open>null\<close> for a key that is not stored; \<open>setItem\<close> stores
  the string (a storage that refuses to store, being full, is not modelled).
\<close>

fun getItem :: "StorageRef \<Rightarrow> string \<Rightarrow> json" where
  "getItem (Storage m) k = (case m k of None \<Rightarrow> JNull | Some v \<Rightarrow> JStr v)"
| "getItem r k = JNull"

fun setItem :: "StorageRef \<Rightarrow> string \<Rightarrow> string \<Rightarrow> StorageRef" where
  "setItem (Storage m) k v = Storage (m(k \<mapsto> v))"
| "setItem r k v = r"

text \<open>
  String concatenation converts an operand that is \<open>undefined\<close> to the text
  \<open>undefined\<close>; \<open>appName\<close> is an optional field.
\<close>

definition jsString :: "string option \<Rightarrow> string" where
  "jsString v = (case v of None \<Rightarrow> ''undefined'' | Some s \<Rightarrow> s)"

definition getLocalProperty :: "'g Terria \<Rightarrow> Window \<Rightarrow> string \<Rightarrow> json" where
  "getLocalProperty t w key =
     (case localStorage w of
        Inl e \<Rightarrow> JNull
      | Inr ls \<Rightarrow>
          if \<not> defined ls then JNull
          else (let v = getItem ls (jsString (appName t) @ ''.'' @ key)
                in if v = JStr ''true'' then JBool True
                   else if v = JStr ''false'' then JBool False
                   else v))"

datatype PropValue = PString string | PBoolean bool

fun toString :: "PropValue \<Rightarrow> string" where
  "toString (PString s) = s"
| "toString (PBoolean b) = (if b then ''true'' else ''false'')"

definition setLocalProperty :: "'g Terria \<Rightarrow> Window \<Rightarrow> string \<Rightarrow> PropValue \<Rightarrow> bool \<times> Window" where
  "setLocalProperty t w key v =
     (case localStorage w of
        Inl e \<Rightarrow> (False, w)
      | Inr ls \<Rightarrow>
          if \<not> defined ls then (False, w)
          else (True, w\<lparr>localStorage :=
                  Inr (setItem ls (jsString (appName t) @ ''.'' @ key) (toString v))\<rparr>))"

section \<open>The search box\<close>

text \<open>
  The component's props are the search text and the two callbacks of its parent; a call
  of a callback is recorded in \<open>calls\<close>. \<open>searchWithDebounce\<close> is lodash's debounce of
  \<open>search\<close>: calling it (re)starts its timer, \<open>cancel\<close> drops a pending timer, and
  when the timer runs out \<open>search\<close> is called.
\<close>

datatype Call = OnSearchTextChanged string | OnDoSearch

record SearchBox =
  searchText :: string
  debouncePending :: bool
  calls :: "Call list"

record ChangeEvent =
  target_value :: string

definition removeDebounce :: "SearchBox \<Rightarrow> SearchBox" where
  "removeDebounce sb = sb\<lparr>debouncePending := False\<rparr>"

definition search :: "SearchBox \<Rightarrow> SearchBox" where
  "search sb = (let sb1 = removeDebounce sb in sb1\<lparr>calls := calls sb1 @ [OnDoSearch]\<rparr>)"

definition searchWithDebounce :: "SearchBox \<Rightarrow> SearchBox" where
  "searchWithDebounce sb = sb\<lparr>debouncePending := True\<rparr>"

definition debounceElapsed :: "SearchBox \<Rightarrow> SearchBox" where
  "debounceElapsed sb = (if debouncePending sb then search sb else sb)"

definition onSearchTextChanged :: "SearchBox \<Rightarrow> string \<Rightarrow> SearchBox" where
  "onSearchTextChanged sb v = sb\<lparr>calls := calls sb @ [OnSearchTextChanged v]\<rparr>"

definition handleChange :: "SearchBox \<Rightarrow> ChangeEvent \<Rightarrow> SearchBox" where
  "handleChange sb event =
     (let v = target_value event
      in if length (searchText sb) = 0
         then search (onSearchTextChanged sb v)
         else searchWithDebounce (onSearchTextChanged sb v))"

section \<open>Reading and building JSON values\<close>

text \<open>
  Truthiness: \<open>undefined\<close>, \<open>null\<close>, \<open>false\<close>, zero and the empty string
  are falsy, every array and object is truthy.
\<close>

fun truthy :: "json \<Rightarrow> bool" where
  "truthy JUndefined = False"
| "truthy JNull = False"
| "truthy (JBool b) = b"
| "truthy (JNum n) = (n \<noteq> 0)"
| "truthy (JStr s) = (s \<noteq> [])"
| "truthy (JArr xs) = True"
| "truthy (JObj kvs) = True"

text \<open>
  \<open>getP v k\<close> is \<open>v.k\<close> for a value that is neither \<open>null\<close> nor \<open>undefined\<close>
  and a key that no prototype defines (all keys the code reads are such): an object gives
  its own property, anything else \<open>undefined\<close>. \<open>getProp\<close> adds the TypeError of
  a read on \<open>null\<close> or \<open>undefined\<close>.
\<close>

fun getP :: "json \<Rightarrow> string \<Rightarrow> json" where
  "getP (JObj kvs) k = (case map_of kvs k of None \<Rightarrow> JUndefined | Some v \<Rightarrow> v)"
| "getP v k = JUndefined"

fun getProp :: "json \<Rightarrow> string \<Rightarrow> error + json" where
  "getProp JUndefined k = Inl TypeError"
| "getProp JNull k = Inl TypeError"
| "getProp v k = Inr (getP v k)"

text \<open>Writing a property: an existing key keeps its place, a new one goes last.\<close>

fun setProp :: "string \<Rightarrow> json \<Rightarrow> (string \<times> json) list \<Rightarrow> (string \<times> json) list" where
  "setProp k v [] = [(k, v)]"
| "setProp k v ((k', v') # kvs) = (if k' = k then (k, v) # kvs else (k', v') # setProp k v kvs)"

text \<open>The decimal text of an index, the key of an array element or of a character.\<close>

fun showNat :: "nat \<Rightarrow> string" where
  "showNat n =
     (if n < 10 then [char_of (48 + n)]
      else showNat (n div 10) @ [char_of (48 + n mod 10)])"

declare showNat.simps [simp del]

text \<open>
  The own enumerable properties that a spread \<open>...v\<close> copies: those of an object, the
  elements of an array and the characters of a string under their indices, and none of
  any other value.
\<close>

fun ownEntries :: "json \<Rightarrow> (string \<times> json) list" where
  "ownEntries (JObj kvs) = map (\<lambda>k. (k, getP (JObj kvs) k)) (remdups (map fst kvs))"
| "ownEntries (JArr xs) = zip (map showNat [0..<length xs]) xs"
| "ownEntries (JStr s) = zip (map showNat [0..<length s]) (map (\<lambda>c. JStr [c]) s)"
| "ownEntries v = []"

definition spread :: "(string \<times> json) list \<Rightarrow> json \<Rightarrow> (string \<times> json) list" where
  "spread obj v = foldl (\<lambda>acc (k, x). setProp k x acc) obj (ownEntries v)"

section \<open>Collaborators\<close>

text \<open>
  What the class calls and the sources do not hold: \<open>loadJson5\<close> (the response to a
  request, a rejection being \<open>Inl\<close>), \<open>updateModelFromJson\<close> (it may throw, and
  gives the catalog group as it is afterwards) and the operations of URI.js on its
  URI objects \<open>'u\<close>. The constructor, \<open>filename\<close> and \<open>absoluteTo\<close> of
  URI.js throw on what they do not accept (a port that is not a number, a URN where a
  hierarchical URL is needed); a throw is \<open>Inl\<close>.
\<close>

record ('u, 'g) Deps =
  loadJson5 :: "string \<Rightarrow> error + json"
  updateModelFromJson :: "'g \<Rightarrow> string \<Rightarrow> json \<Rightarrow> (error + unit) \<times> 'g"
  uri_new :: "string \<Rightarrow> error + 'u"
  uri_filename :: "'u \<Rightarrow> string \<Rightarrow> error + 'u"
  uri_absoluteTo :: "'u \<Rightarrow> 'u \<Rightarrow> error + 'u"
  uri_toString :: "'u \<Rightarrow> string"

text \<open>
  Modelled from the spec: \<open>CommonStrata\<close> is not among the sources; its member
  \<open>definition\<close> names the definition stratum.
\<close>

definition CommonStrata_definition :: string where
  "CommonStrata_definition = ''definition''"

section \<open>Initialization URLs\<close>

text \<open>
  Strings are lists of code units, those of ASCII text; \<open>toLowerCase\<close> then keeps
  the length.
\<close>

definition toLowerChar :: "char \<Rightarrow> char" where
  "toLowerChar c =
     (let n = (of_char c :: nat)
      in if of_char CHR ''A'' \<le> n \<and> n \<le> of_char CHR ''Z'' then char_of (n + 32) else c)"

definition toLowerCase :: "string \<Rightarrow> string" where
  "toLowerCase s = map toLowerChar s"

text \<open>\<open>substring(i)\<close> takes a negative start as zero, as \<open>nat\<close> does.\<close>

definition substring :: "string \<Rightarrow> int \<Rightarrow> string" where
  "substring s i = drop (nat i) s"

text \<open>
  \<open>generateInitializationUrl\<close> returns an object with the fields \<open>baseUri\<close> and
  \<open>initFragment\<close>, or a string. Reading a field of the string gives \<open>undefined\<close>.
\<close>

datatype 'u InitSource = InitObject 'u string | InitString string

fun baseUri :: "'u InitSource \<Rightarrow> 'u option" where
  "baseUri (InitObject b f) = Some b"
| "baseUri (InitString s) = None"

fun initFragment :: "'u InitSource \<Rightarrow> string option" where
  "initFragment (InitObject b f) = Some f"
| "initFragment (InitString s) = None"

definition generateInitializationUrl ::
  "('u, 'g) Deps \<Rightarrow> 'u \<Rightarrow> string \<Rightarrow> error + 'u InitSource" where
  "generateInitializationUrl d b url =
     (if substring (toLowerCase url) (int (length url) - 5) \<noteq> ''.json''
      then Inr (InitObject b url)
      else (case uri_new d url of
              Inl e \<Rightarrow> Inl e
            | Inr u \<Rightarrow>
                (case uri_absoluteTo d u b of
                   Inl e \<Rightarrow> Inl e
                 | Inr a \<Rightarrow> Inr (InitString (uri_toString d a)))))"

definition buildInitUrlFromFragment ::
  "('u, 'g) Deps \<Rightarrow> string \<Rightarrow> 'u InitSource \<Rightarrow> error + 'u" where
  "buildInitUrlFromFragment d path fragmentObject =
     (case uri_new d (path @ jsString (initFragment fragmentObject) @ ''.json'') of
        Inl e \<Rightarrow> Inl e
      | Inr uri \<Rightarrow>
          (case baseUri fragmentObject of
             Some b \<Rightarrow> uri_absoluteTo d uri b
           | None \<Rightarrow> Inr uri))"

text \<open>
  The URL \<open>start\<close> gives to \<open>loadJson5\<close> for an entry of
  \<open>initializationUrls\<close>:
  \<open>buildInitUrlFromFragment("init/", generateInitializationUrl(baseUri, entry)).toString()\<close>.
\<close>

definition initUrl :: "('u, 'g) Deps \<Rightarrow> 'u \<Rightarrow> string \<Rightarrow> error + string" where
  "initUrl d b initializationUrl =
     (case generateInitializationUrl d b initializationUrl of
        Inl e \<Rightarrow> Inl e
      | Inr fragmentObject \<Rightarrow>
          (case buildInitUrlFromFragment d ''init/'' fragmentObject of
             Inl e \<Rightarrow> Inl e
           | Inr uri \<Rightarrow> Inr (uri_toString d uri)))"

section \<open>Loading a Magda configuration\<close>

text \<open>
  The function mapped over \<open>aspects.group.members\<close>. Reading \<open>member.aspects\<close>
  throws for a member that is \<open>null\<close>; the later reads are on truthy values.
\<close>

definition magdaMember :: "json \<Rightarrow> error + json" where
  "magdaMember member =
     (case getProp member ''aspects'' of
        Inl e \<Rightarrow> Inl e
      | Inr aspects \<Rightarrow>
          if \<not> truthy aspects then Inr JUndefined
          else
            (let terria = getP aspects ''terria''
             in if \<not> truthy terria then Inr JUndefined
                else if truthy (getP aspects ''group'')
                then Inr (JObj
                  [(''id'', getP member ''id''),
                   (''name'', getP member ''name''),
                   (''type'', JStr ''magda-group''),
                   (''url'', JStr ''http://saas.terria.io''),
                   (''groupId'', getP member ''id''),
                   (''definition'', JObj (spread
                      [(''type'', getP terria ''type''),
                       (''members'', getP (getP aspects ''group'') ''members'')]
                      (getP terria ''definition'')))])
                else Inr (JObj (spread
                  [(''id'', getP member ''id''),
                   (''name'', getP member ''name''),
                   (''type'', getP terria ''type'')]
                  (getP terria ''definition'')))))"

text \<open>\<open>Array.prototype.map\<close> with that function: the first throw ends it.\<close>

fun mapMembers :: "json list \<Rightarrow> error + json list" where
  "mapMembers [] = Inr []"
| "mapMembers (m # ms) =
     (case magdaMember m of
        Inl e \<Rightarrow> Inl e
      | Inr n \<Rightarrow> (case mapMembers ms of Inl e \<Rightarrow> Inl e | Inr ns \<Rightarrow> Inr (n # ns)))"

text \<open>
  \<open>loadMagdaConfig\<close>: the result is what the call returns or throws, with the object
  afterwards. A truthy \<open>members\<close> that is not an array has no \<open>map\<close> to call.
\<close>

definition loadMagdaConfig ::
  "('u, 'g) Deps \<Rightarrow> 'g Terria \<Rightarrow> json \<Rightarrow> (error + json) \<times> 'g Terria" where
  "loadMagdaConfig d t config =
     (case getProp config ''aspects'' of
        Inl e \<Rightarrow> (Inl e, t)
      | Inr aspects \<Rightarrow>
          (case getProp aspects ''group'' of
             Inl e \<Rightarrow> (Inl e, t)
           | Inr grp \<Rightarrow>
               if truthy grp \<and> truthy (getP grp ''members'')
               then (case getP grp ''members'' of
                       JArr ms \<Rightarrow>
                         (case mapMembers ms of
                            Inl e \<Rightarrow> (Inl e, t)
                          | Inr members \<Rightarrow>
                              (let (r, g) = updateModelFromJson d (catalogGroup t)
                                     CommonStrata_definition (JObj [(''members'', JArr members)])
                               in (case r of Inl e \<Rightarrow> Inl e | Inr u \<Rightarrow> Inr JUndefined,
                                   t\<lparr>catalogGroup := g\<rparr>)))
                     | other \<Rightarrow> (Inl TypeError, t))
               else (Inr JUndefined, t)))"

section \<open>Starting\<close>





text \<open>
  How a call of \<open>start\<close> ends: it throws before it returns, or it returns a promise,
  which is rejected, resolved, or stays pending (when a response never arrives).
\<close>

datatype Outcome = Throws error | Rejects error | Resolves json | Pending

record 'g Started =
  requests :: "string list"
  outcome :: Outcome
  terria :: "'g Terria"


section \<open>The model registry: properties\<close>

text \<open>
  C1. For a model whose id is not a removed reference, \<open>addModel\<close> throws the
  RuntimeError when the registry already has an entry for the id, and then leaves the
  object as it was; when there is no entry, it returns normally and the registry
  afterwards maps the id to the model, every other field and entry staying in place.
\<close>

theorem addModel_registers:
  "\<not> isRemoved (model_id m) \<Longrightarrow>
     \<exists>i. model_id m = ModelId i \<and>
       (models t i \<noteq> None \<longrightarrow>
          addModel t m = (Inl (RuntimeError ''A model with the specified ID already exists.''), t)) \<and>
       (models t i = None \<longrightarrow>
          fst (addModel t m) = Inr () \<and> models (snd (addModel t m)) i = Some m
          \<and> snd (addModel t m) = t\<lparr>models := (models t)(i \<mapsto> m)\<rparr>)"
  by (cases "model_id m") (auto simp: addModel_def)

theorem addModel_registers_witness:
  "\<not> isRemoved (model_id \<lparr>protoChain = [], model_id = ModelId ''a''\<rparr>) \<and>
   addModel
     \<lparr>models = [''a'' \<mapsto> \<lparr>protoChain = [''X''], model_id = ModelId ''a''\<rparr>], mainViewer = None,
      appName = None, userProperties = Map.empty, stories = JArr [], catalogGroup = ()\<rparr>
     \<lparr>protoChain = [], model_id = ModelId ''a''\<rparr>
     = (Inl (RuntimeError ''A model with the specified ID already exists.''),
        \<lparr>models = [''a'' \<mapsto> \<lparr>protoChain = [''X''], model_id = ModelId ''a''\<rparr>], mainViewer = None,
         appName = None, userProperties = Map.empty, stories = JArr [], catalogGroup = ()\<rparr>) \<and>
   models (snd (addModel
     \<lparr>models = Map.empty, mainViewer = None, appName = None, userProperties = Map.empty,
      stories = JArr [], catalogGroup = ()\<rparr>
     \<lparr>protoChain = [], model_id = ModelId ''a''\<rparr>)) ''a''
     = Some \<lparr>protoChain = [], model_id = ModelId ''a''\<rparr>"
  using addModel_registers [of "\<lparr>protoChain = [], model_id = ModelId ''a''\<rparr>"
          "\<lparr>models = [''a'' \<mapsto> \<lparr>protoChain = [''X''], model_id = ModelId ''a''\<rparr>], mainViewer = None,
            appName = None, userProperties = Map.empty, stories = JArr [], catalogGroup = ()\<rparr>"]
        addModel_registers [of "\<lparr>protoChain = [], model_id = ModelId ''a''\<rparr>"
          "\<lparr>models = Map.empty, mainViewer = None, appName = None, userProperties = Map.empty,
            stories = JArr [], catalogGroup = ()\<rparr>"]
  by simp

text \<open>
  C2. \<open>getModelById\<close> returns \<open>undefined\<close> for a removed reference; for an id it
  returns a model exactly when that model is registered under the id and is an instance
  of the type, and \<open>undefined\<close> when the id is not registered or the model is of
  another type; it always returns and never throws.
\<close>

theorem getModelById_spec:
  "(isRemoved ref \<longrightarrow> getModelById iOf t T ref = Inr None) \<and>
   (\<forall>i. ref = ModelId i \<longrightarrow>
      (\<forall>m. getModelById iOf t T ref = Inr (Some m) \<longleftrightarrow> models t i = Some m \<and> iOf T (Some m)) \<and>
      (models t i = None \<or> (\<exists>m. models t i = Some m \<and> \<not> iOf T (Some m))
         \<longrightarrow> getModelById iOf t T ref = Inr None)) \<and>
   (\<exists>r. getModelById iOf t T ref = Inr r)"
  by (cases ref) (auto simp: getModelById_def Let_def)

theorem getModelById_spec_witness:
  "isRemoved (RemovedModelId ''a'') \<and>
   getModelById (\<lambda>T m. case m of None \<Rightarrow> False | Some x \<Rightarrow> instanceof x T)
     \<lparr>models = [''a'' \<mapsto> \<lparr>protoChain = [''Csv''], model_id = ModelId ''a''\<rparr>], mainViewer = None,
      appName = None, userProperties = Map.empty, stories = JArr [], catalogGroup = ()\<rparr>
     ''Csv'' (RemovedModelId ''a'') = Inr None \<and>
   getModelById (\<lambda>T m. case m of None \<Rightarrow> False | Some x \<Rightarrow> instanceof x T)
     \<lparr>models = [''a'' \<mapsto> \<lparr>protoChain = [''Csv''], model_id = ModelId ''a''\<rparr>], mainViewer = None,
      appName = None, userProperties = Map.empty, stories = JArr [], catalogGroup = ()\<rparr>
     ''Csv'' (ModelId ''a'') = Inr (Some \<lparr>protoChain = [''Csv''], model_id = ModelId ''a''\<rparr>) \<and>
   getModelById (\<lambda>T m. case m of None \<Rightarrow> False | Some x \<Rightarrow> instanceof x T)
     \<lparr>models = [''a'' \<mapsto> \<lparr>protoChain = [''Csv''], model_id = ModelId ''a''\<rparr>], mainViewer = None,
      appName = None, userProperties = Map.empty, stories = JArr [], catalogGroup = ()\<rparr>
     ''Wms'' (ModelId ''a'') = Inr None \<and>
   getModelById (\<lambda>T m. case m of None \<Rightarrow> False | Some x \<Rightarrow> instanceof x T)
     \<lparr>models = [''a'' \<mapsto> \<lparr>protoChain = [''Csv''], model_id = ModelId ''a''\<rparr>], mainViewer = None,
      appName = None, userProperties = Map.empty, stories = JArr [], catalogGroup = ()\<rparr>
     ''Csv'' (ModelId ''b'') = Inr None"
  using getModelById_spec [of "RemovedModelId ''a''"
          "\<lambda>T m. case m of None \<Rightarrow> False | Some x \<Rightarrow> instanceof x T"
          "\<lparr>models = [''a'' \<mapsto> \<lparr>protoChain = [''Csv''], model_id = ModelId ''a''\<rparr>], mainViewer = None,
            appName = None, userProperties = Map.empty, stories = JArr [], catalogGroup = ()\<rparr>" "''Csv''"]
        getModelById_spec [of "ModelId ''a''"
          "\<lambda>T m. case m of None \<Rightarrow> False | Some x \<Rightarrow> instanceof x T"
          "\<lparr>models = [''a'' \<mapsto> \<lparr>protoChain = [''Csv''], model_id = ModelId ''a''\<rparr>], mainViewer = None,
            appName = None, userProperties = Map.empty, stories = JArr [], catalogGroup = ()\<rparr>" "''Csv''"]
        getModelById_spec [of "ModelId ''a''"
          "\<lambda>T m. case m of None \<Rightarrow> False | Some x \<Rightarrow> instanceof x T"
          "\<lparr>models = [''a'' \<mapsto> \<lparr>protoChain = [''Csv''], model_id = ModelId ''a''\<rparr>], mainViewer = None,
            appName = None, userProperties = Map.empty, stories = JArr [], catalogGroup = ()\<rparr>" "''Wms''"]
        getModelById_spec [of "ModelId ''b''"
          "\<lambda>T m. case m of None \<Rightarrow> False | Some x \<Rightarrow> instanceof x T"
          "\<lparr>models = [''a'' \<mapsto> \<lparr>protoChain = [''Csv''], model_id = ModelId ''a''\<rparr>], mainViewer = None,
            appName = None, userProperties = Map.empty, stories = JArr [], catalogGroup = ()\<rparr>" "''Csv''"]
  by (simp add: instanceof_def getModelById_def)

section \<open>Viewer getters: properties\<close>

text \<open>
  C3. The getter \<open>currentViewer\<close> never gives an absent value: it gives the main
  viewer's current viewer when the main viewer is defined and has one, and a new
  \<open>NoViewer\<close> in every other case.
\<close>

theorem currentViewer_spec:
  "currentViewer t \<noteq> None \<and>
   (\<forall>mv v. mainViewer t = Some mv \<and> tv_currentViewer mv = Some v \<longrightarrow> currentViewer t = Some v) \<and>
   (mainViewer t = None \<or> (\<exists>mv. mainViewer t = Some mv \<and> tv_currentViewer mv = None)
      \<longrightarrow> currentViewer t = Some (new_NoViewer t) \<and> instanceof (new_NoViewer t) NoViewer)"
  by (auto simp: currentViewer_def Let_def new_NoViewer_def instanceof_def split: option.splits)

theorem currentViewer_spec_witness:
  "currentViewer
     \<lparr>models = Map.empty,
      mainViewer = Some \<lparr>protoChain = [''TerriaViewer''],
                         tv_currentViewer = Some \<lparr>protoChain = [''Leaflet'']\<rparr>\<rparr>,
      appName = None, userProperties = Map.empty, stories = JArr [], catalogGroup = ()\<rparr>
     = Some \<lparr>protoChain = [''Leaflet'']\<rparr> \<and>
   currentViewer
     \<lparr>models = Map.empty,
      mainViewer = Some \<lparr>protoChain = [''TerriaViewer''], tv_currentViewer = None\<rparr>,
      appName = None, userProperties = Map.empty, stories = JArr [], catalogGroup = ()\<rparr>
     = Some \<lparr>protoChain = [''NoViewer'']\<rparr> \<and>
   currentViewer
     \<lparr>models = Map.empty, mainViewer = None,
      appName = None, userProperties = Map.empty, stories = JArr [], catalogGroup = ()\<rparr>
     = Some \<lparr>protoChain = [''NoViewer'']\<rparr>"
  using currentViewer_spec [of
          "\<lparr>models = Map.empty,
            mainViewer = Some \<lparr>protoChain = [''TerriaViewer''],
                               tv_currentViewer = Some \<lparr>protoChain = [''Leaflet'']\<rparr>\<rparr>,
            appName = None, userProperties = Map.empty, stories = JArr [], catalogGroup = ()\<rparr>"]
        currentViewer_spec [of
          "\<lparr>models = Map.empty,
            mainViewer = Some \<lparr>protoChain = [''TerriaViewer''], tv_currentViewer = None\<rparr>,
            appName = None, userProperties = Map.empty, stories = JArr [], catalogGroup = ()\<rparr>"]
        currentViewer_spec [of
          "\<lparr>models = Map.empty, mainViewer = None,
            appName = None, userProperties = Map.empty, stories = JArr [], catalogGroup = ()\<rparr>"]
  by (simp add: new_NoViewer_def NoViewer_def)

text \<open>
  C6. The getter \<open>cesium\<close> gives the main viewer exactly when it is defined and an
  instance of \<open>Cesium\<close>, and \<open>undefined\<close> otherwise; \<open>leaflet\<close> does the same
  with \<open>Leaflet\<close>.
\<close>

theorem cesium_leaflet_spec:
  "(\<forall>mv. mainViewer t = Some mv \<and> instanceof mv Cesium \<longrightarrow> cesium t = Some mv) \<and>
   (\<not> (\<exists>mv. mainViewer t = Some mv \<and> instanceof mv Cesium) \<longrightarrow> cesium t = None) \<and>
   (\<forall>mv. mainViewer t = Some mv \<and> instanceof mv Leaflet \<longrightarrow> leaflet t = Some mv) \<and>
   (\<not> (\<exists>mv. mainViewer t = Some mv \<and> instanceof mv Leaflet) \<longrightarrow> leaflet t = None)"
  by (auto simp: cesium_def leaflet_def isDefined_def split: option.splits)

theorem cesium_leaflet_spec_witness:
  "cesium
     \<lparr>models = Map.empty,
      mainViewer = Some \<lparr>protoChain = [''Cesium'', ''GlobeOrMap''], tv_currentViewer = None\<rparr>,
      appName = None, userProperties = Map.empty, stories = JArr [], catalogGroup = ()\<rparr>
     = Some \<lparr>protoChain = [''Cesium'', ''GlobeOrMap''], tv_currentViewer = None\<rparr> \<and>
   leaflet
     \<lparr>models = Map.empty,
      mainViewer = Some \<lparr>protoChain = [''Cesium'', ''GlobeOrMap''], tv_currentViewer = None\<rparr>,
      appName = None, userProperties = Map.empty, stories = JArr [], catalogGroup = ()\<rparr>
     = None \<and>
   leaflet
     \<lparr>models = Map.empty,
      mainViewer = Some \<lparr>protoChain = [''Leaflet'', ''GlobeOrMap''], tv_currentViewer = None\<rparr>,
      appName = None, userProperties = Map.empty, stories = JArr [], catalogGroup = ()\<rparr>
     = Some \<lparr>protoChain = [''Leaflet'', ''GlobeOrMap''], tv_currentViewer = None\<rparr> \<and>
   cesium
     \<lparr>models = Map.empty, mainViewer = None,
      appName = None, userProperties = Map.empty, stories = JArr [], catalogGroup = ()\<rparr>
     = None"
  using cesium_leaflet_spec [of
          "\<lparr>models = Map.empty,
            mainViewer = Some \<lparr>protoChain = [''Cesium'', ''GlobeOrMap''], tv_currentViewer = None\<rparr>,
            appName = None, userProperties = Map.empty, stories = JArr [], catalogGroup = ()\<rparr>"]
        cesium_leaflet_spec [of
          "\<lparr>models = Map.empty,
            mainViewer = Some \<lparr>protoChain = [''Leaflet'', ''GlobeOrMap''], tv_currentViewer = None\<rparr>,
            appName = None, userProperties = Map.empty, stories = JArr [], catalogGroup = ()\<rparr>"]
        cesium_leaflet_spec [of
          "\<lparr>models = Map.empty, mainViewer = None,
            appName = None, userProperties = Map.empty, stories = JArr [], catalogGroup = ()\<rparr>"]
  by (simp add: instanceof_def Cesium_def Leaflet_def)

section \<open>User and local properties: properties\<close>

text \<open>
  C10. \<open>getUserProperty\<close> returns \<open>undefined\<close> for every key, whatever the map
  \<open>userProperties\<close> of the object holds.
\<close>

theorem getUserProperty_undefined:
  "getUserProperty (t\<lparr>userProperties := m\<rparr>) key = JUndefined"
  by (simp add: getUserProperty_def)

text \<open>
  C8. With a storage available, \<open>setLocalProperty\<close> returns true, and reading the key
  back gives the boolean that was written, or the string that was written when it is
  neither \<open>true\<close> nor \<open>false\<close>; these two strings are read back as the booleans.
  When reading \<open>window.localStorage\<close> throws or gives nothing, \<open>setLocalProperty\<close>
  returns false and changes nothing, and \<open>getLocalProperty\<close> returns \<open>null\<close>.
\<close>

theorem localProperty_roundtrip:
  "(localStorage w = Inr (Storage m) \<longrightarrow>
      fst (setLocalProperty t w key v) = True \<and>
      getLocalProperty t (snd (setLocalProperty t w key (PBoolean b))) key = JBool b \<and>
      (s \<noteq> ''true'' \<and> s \<noteq> ''false'' \<longrightarrow>
         getLocalProperty t (snd (setLocalProperty t w key (PString s))) key = JStr s) \<and>
      getLocalProperty t (snd (setLocalProperty t w key (PString ''true''))) key = JBool True \<and>
      getLocalProperty t (snd (setLocalProperty t w key (PString ''false''))) key = JBool False) \<and>
   (localStorage w = Inl e \<or> localStorage w = Inr StorageUndefined \<or> localStorage w = Inr StorageNull
      \<longrightarrow> setLocalProperty t w key v = (False, w) \<and> getLocalProperty t w key = JNull)"
  by (auto simp: setLocalProperty_def getLocalProperty_def Let_def)

theorem localProperty_roundtrip_witness:
  "getLocalProperty
     \<lparr>models = Map.empty, mainViewer = None, appName = Some ''app'', userProperties = Map.empty,
      stories = JArr [], catalogGroup = ()\<rparr>
     (snd (setLocalProperty
       \<lparr>models = Map.empty, mainViewer = None, appName = Some ''app'', userProperties = Map.empty,
        stories = JArr [], catalogGroup = ()\<rparr>
       \<lparr>localStorage = Inr (Storage Map.empty)\<rparr> ''k'' (PString ''blue''))) ''k'' = JStr ''blue'' \<and>
   getLocalProperty
     \<lparr>models = Map.empty, mainViewer = None, appName = Some ''app'', userProperties = Map.empty,
      stories = JArr [], catalogGroup = ()\<rparr>
     (snd (setLocalProperty
       \<lparr>models = Map.empty, mainViewer = None, appName = Some ''app'', userProperties = Map.empty,
        stories = JArr [], catalogGroup = ()\<rparr>
       \<lparr>localStorage = Inr (Storage Map.empty)\<rparr> ''k'' (PBoolean True))) ''k'' = JBool True \<and>
   setLocalProperty
     \<lparr>models = Map.empty, mainViewer = None, appName = Some ''app'', userProperties = Map.empty,
      stories = JArr [], catalogGroup = ()\<rparr>
     \<lparr>localStorage = Inl (OtherError ''SecurityError'')\<rparr> ''k'' (PBoolean True)
     = (False, \<lparr>localStorage = Inl (OtherError ''SecurityError'')\<rparr>) \<and>
   getLocalProperty
     \<lparr>models = Map.empty, mainViewer = None, appName = Some ''app'', userProperties = Map.empty,
      stories = JArr [], catalogGroup = ()\<rparr>
     \<lparr>localStorage = Inl (OtherError ''SecurityError'')\<rparr> ''k'' = JNull"
  using localProperty_roundtrip [of "\<lparr>localStorage = Inr (Storage Map.empty)\<rparr>" Map.empty
          "\<lparr>models = Map.empty, mainViewer = None, appName = Some ''app'',
            userProperties = Map.empty, stories = JArr [], catalogGroup = ()\<rparr>"
          "''k''" "PBoolean True" True "''blue''" "OtherError ''SecurityError''"]
        localProperty_roundtrip [of "\<lparr>localStorage = Inl (OtherError ''SecurityError'')\<rparr>" Map.empty
          "\<lparr>models = Map.empty, mainViewer = None, appName = Some ''app'',
            userProperties = Map.empty, stories = JArr [], catalogGroup = ()\<rparr>"
          "''k''" "PBoolean True" True "''blue''" "OtherError ''SecurityError''"]
  by simp

section \<open>The search box: properties\<close>

text \<open>
  C9. \<open>handleChange\<close> calls \<open>onSearchTextChanged\<close> with the new value of the event.
  When the search text is empty it then searches at once: no debounced call stays
  pending and \<open>onDoSearch\<close> is called. Otherwise it calls nothing else and leaves the
  search to the debounced wrapper, which calls \<open>onDoSearch\<close> when its time is up.
\<close>

theorem handleChange_spec:
  "(searchText sb = [] \<longrightarrow>
      handleChange sb ev =
        sb\<lparr>debouncePending := False,
           calls := calls sb @ [OnSearchTextChanged (target_value ev), OnDoSearch]\<rparr>) \<and>
   (searchText sb \<noteq> [] \<longrightarrow>
      handleChange sb ev =
        sb\<lparr>debouncePending := True, calls := calls sb @ [OnSearchTextChanged (target_value ev)]\<rparr> \<and>
      debounceElapsed (handleChange sb ev) =
        sb\<lparr>debouncePending := False,
           calls := calls sb @ [OnSearchTextChanged (target_value ev), OnDoSearch]\<rparr>)"
  by (auto simp: handleChange_def search_def removeDebounce_def searchWithDebounce_def
        onSearchTextChanged_def debounceElapsed_def Let_def)

theorem handleChange_spec_witness:
  "handleChange \<lparr>searchText = [], debouncePending = True, calls = []\<rparr> \<lparr>target_value = ''a''\<rparr>
     = \<lparr>searchText = [], debouncePending = False, calls = [OnSearchTextChanged ''a'', OnDoSearch]\<rparr> \<and>
   handleChange \<lparr>searchText = ''a'', debouncePending = False, calls = []\<rparr> \<lparr>target_value = ''ab''\<rparr>
     = \<lparr>searchText = ''a'', debouncePending = True, calls = [OnSearchTextChanged ''ab'']\<rparr>"
  using handleChange_spec [of "\<lparr>searchText = [], debouncePending = True, calls = []\<rparr>"
          "\<lparr>target_value = ''a''\<rparr>"]
        handleChange_spec [of "\<lparr>searchText = ''a'', debouncePending = False, calls = []\<rparr>"
          "\<lparr>target_value = ''ab''\<rparr>"]
  by simp

section \<open>Objects and spreads: lemmas\<close>

lemma map_of_setProp: "map_of (setProp k v kvs) = (map_of kvs)(k \<mapsto> v)"
  by (induction kvs) (auto simp: fun_eq_iff)

lemma map_of_foldl_setProp:
  "map_of (foldl (\<lambda>acc (k, x). setProp k x acc) obj es) = map_of obj ++ map_of (rev es)"
proof (induction es arbitrary: obj)
  case Nil
  then show ?case by simp
next
  case (Cons e es)
  obtain k x where e: "e = (k, x)" by (cases e)
  show ?case
    by (simp add: Cons.IH e map_of_setProp fun_eq_iff map_add_def split: option.splits)
qed

lemma digit_inj: "m < 10 \<Longrightarrow> n < 10 \<Longrightarrow> (char_of (48 + m) :: char) = char_of (48 + n) \<Longrightarrow> m = (n::nat)"
proof -
  assume a: "m < 10" "n < 10" "(char_of (48 + m) :: char) = char_of (48 + n)"
  then have "of_char (char_of (48 + m) :: char) = (of_char (char_of (48 + n) :: char) :: nat)" by simp
  with a show ?thesis by (simp add: of_char_of)
qed

lemma showNat_small: "n < 10 \<Longrightarrow> showNat n = [char_of (48 + n)]"
  by (subst showNat.simps) simp

lemma showNat_big:
  "\<not> n < 10 \<Longrightarrow> showNat n = showNat (n div 10) @ [char_of (48 + n mod 10)]"
  by (subst showNat.simps) simp

lemma showNat_ne: "showNat n \<noteq> []"
proof (cases "n < 10")
  case True
  show ?thesis unfolding showNat_small [OF True] by simp
next
  case False
  show ?thesis unfolding showNat_big [OF False] by simp
qed

lemma showNat_length1: "length (showNat n) = 1 \<longleftrightarrow> n < 10"
proof (cases "n < 10")
  case True
  show ?thesis unfolding showNat_small [OF True] using True by simp
next
  case False
  have "length (showNat (n div 10)) \<noteq> 0" using showNat_ne [of "n div 10"] by simp
  then show ?thesis unfolding showNat_big [OF False] using False by simp
qed

lemma showNat_inj: "showNat m = showNat n \<Longrightarrow> m = n"
proof (induction m arbitrary: n rule: showNat.induct)
  case (1 m)
  show ?case
  proof (cases "m < 10")
    case True
    then have "length (showNat m) = 1" by (simp only: showNat_length1)
    then have "length (showNat n) = 1" using "1.prems" by (simp only:)
    then have n: "n < 10" by (simp only: showNat_length1)
    have "[char_of (48 + m) :: char] = [char_of (48 + n)]"
      using "1.prems" by (simp only: showNat_small [OF True] showNat_small [OF n])
    then have "(char_of (48 + m) :: char) = char_of (48 + n)" by (rule list.inject [THEN iffD1, THEN conjunct1])
    with True n show ?thesis by (rule digit_inj)
  next
    case False
    have n: "\<not> n < 10"
    proof
      assume "n < 10"
      then have "length (showNat n) = 1" by (simp only: showNat_length1)
      then have "length (showNat m) = 1" using "1.prems" by (simp only:)
      then have "m < 10" by (simp only: showNat_length1)
      with False show False ..
    qed
    have "showNat (m div 10) @ [char_of (48 + m mod 10)] =
          showNat (n div 10) @ [char_of (48 + n mod 10)]"
      using "1.prems" by (simp only: showNat_big [OF False] showNat_big [OF n])
    then have a: "showNat (m div 10) = showNat (n div 10)"
      and b: "(char_of (48 + m mod 10) :: char) = char_of (48 + n mod 10)"
      by simp_all
    from "1.IH" [OF False a] have d: "m div 10 = n div 10" .
    have "m mod 10 < 10" "n mod 10 < 10" by simp_all
    then have "m mod 10 = n mod 10" using b by (rule digit_inj)
    with d show ?thesis by (metis div_mult_mod_eq)
  qed
qed

lemma distinct_showNat_upt: "distinct (map showNat [0..<n])"
  by (simp add: distinct_map inj_on_def showNat_inj)

lemma distinct_ownEntries: "distinct (map fst (ownEntries v))"
  by (cases v) (simp_all add: distinct_showNat_upt comp_def)

lemma map_of_rev_distinct: "distinct (map fst es) \<Longrightarrow> map_of (rev es) = map_of es"
  by (metis distinct_rev map_of_inject_set rev_map set_rev)

lemma map_of_spread:
  "map_of (spread obj v) = map_of obj ++ map_of (ownEntries v)"
  by (simp add: spread_def map_of_foldl_setProp map_of_rev_distinct distinct_ownEntries)

lemma getP_spread:
  "getP (JObj (spread obj v)) k =
     (case map_of (ownEntries v) k of Some x \<Rightarrow> x | None \<Rightarrow> getP (JObj obj) k)"
  by (simp add: map_of_spread map_add_def split: option.splits)

lemma map_of_tabulate:
  "map_of (map (\<lambda>k. (k, f k)) xs) k = (if k \<in> set xs then Some (f k) else None)"
  by (induction xs) auto

lemma map_of_ownEntries_JObj: "map_of (ownEntries (JObj kvs)) k = map_of kvs k"
proof (cases "map_of kvs k")
  case None
  then have "k \<notin> fst ` set kvs" by (simp add: map_of_eq_None_iff)
  with None show ?thesis by (simp add: map_of_tabulate)
next
  case (Some x)
  then have "k \<in> fst ` set kvs" by (metis map_of_eq_None_iff option.distinct(1))
  with Some show ?thesis by (simp add: map_of_tabulate)
qed

lemma getP_spread_JObj:
  "getP (JObj (spread obj (JObj kvs))) k =
     (if k \<in> fst ` set kvs then getP (JObj kvs) k else getP (JObj obj) k)"
proof -
  have e: "getP (JObj (spread obj (JObj kvs))) k =
             (case map_of kvs k of Some x \<Rightarrow> x | None \<Rightarrow> getP (JObj obj) k)"
    by (simp only: getP_spread map_of_ownEntries_JObj)
  show ?thesis
  proof (cases "map_of kvs k")
    case None
    have nk: "k \<notin> fst ` set kvs"
      using None map_of_eq_None_iff [of kvs k] by blast
    have "getP (JObj (spread obj (JObj kvs))) k = getP (JObj obj) k"
      unfolding e None by (rule option.case(1))
    then show ?thesis using nk by (simp only: if_False)
  next
    case (Some x)
    have ik: "k \<in> fst ` set kvs"
      using Some map_of_eq_None_iff [of kvs k] by auto
    have "getP (JObj kvs) k = x"
      using Some by simp
    moreover have "getP (JObj (spread obj (JObj kvs))) k = x"
      unfolding e Some by (rule option.case(2))
    ultimately show ?thesis using ik by (simp only: if_True)
  qed
qed

lemma spread_nothing: "ownEntries v = [] \<Longrightarrow> spread obj v = obj"
  by (simp add: spread_def)

section \<open>Loading a Magda configuration: properties\<close>

lemma getProp_defined: "v \<noteq> JNull \<Longrightarrow> v \<noteq> JUndefined \<Longrightarrow> getProp v k = Inr (getP v k)"
  by (cases v) simp_all

lemma getP_falsy_parent: "truthy (getP v k) \<Longrightarrow> v \<noteq> JNull \<and> v \<noteq> JUndefined"
  by (cases v) simp_all

lemma getP_JArr_parent: "getP v k = JArr xs \<Longrightarrow> v \<noteq> JNull \<and> v \<noteq> JUndefined"
  by (cases v) simp_all

lemma mapMembers_Inr:
  "mapMembers ms = Inr ns \<longleftrightarrow> list_all2 (\<lambda>m n. magdaMember m = Inr n) ms ns"
proof (induction ms arbitrary: ns)
  case Nil
  then show ?case by auto
next
  case (Cons m ms)
  show ?case
  proof (cases "magdaMember m")
    case (Inl e)
    then show ?thesis by (auto simp: list_all2_Cons1)
  next
    case (Inr n)
    show ?thesis
    proof (cases "mapMembers ms")
      case (Inl e)
      with Inr Cons.IH show ?thesis by (auto simp: list_all2_Cons1)
    next
      case mm: (Inr ns')
      with Inr Cons.IH show ?thesis by (auto simp: list_all2_Cons1)
    qed
  qed
qed

lemma magdaMember_without:
  assumes "member \<noteq> JNull" "member \<noteq> JUndefined"
    and "\<not> truthy (getP member ''aspects'') \<or>
         \<not> truthy (getP (getP member ''aspects'') ''terria'')"
  shows "magdaMember member = Inr JUndefined"
  using assms by (auto simp: magdaMember_def getProp_defined Let_def)

lemma magdaMember_group:
  assumes "truthy (getP member ''aspects'')"
    and "truthy (getP (getP member ''aspects'') ''terria'')"
    and "truthy (getP (getP member ''aspects'') ''group'')"
  shows "\<exists>node. magdaMember member = Inr node \<and>
           getP node ''type'' = JStr ''magda-group'' \<and>
           getP node ''id'' = getP member ''id'' \<and>
           getP node ''name'' = getP member ''name'' \<and>
           getP node ''groupId'' = getP member ''id'' \<and>
           (\<forall>k. getP (getP node ''definition'') k =
              (case map_of (ownEntries
                     (getP (getP (getP member ''aspects'') ''terria'') ''definition'')) k of
                 Some x \<Rightarrow> x
               | None \<Rightarrow>
                   if k = ''type'' then getP (getP (getP member ''aspects'') ''terria'') ''type''
                   else if k = ''members''
                   then getP (getP (getP member ''aspects'') ''group'') ''members''
                   else JUndefined))"
proof -
  from assms(1) have m: "member \<noteq> JNull" "member \<noteq> JUndefined"
    using getP_falsy_parent by blast+
  show ?thesis
    using assms
    by (simp add: magdaMember_def getProp_defined [OF m] Let_def map_of_spread map_add_def
          split: option.splits)
qed

lemma magdaMember_item:
  assumes "truthy (getP member ''aspects'')"
    and "truthy (getP (getP member ''aspects'') ''terria'')"
    and "\<not> truthy (getP (getP member ''aspects'') ''group'')"
  shows "\<exists>node. magdaMember member = Inr node \<and>
           (\<forall>k. getP node k =
              (case map_of (ownEntries
                     (getP (getP (getP member ''aspects'') ''terria'') ''definition'')) k of
                 Some x \<Rightarrow> x
               | None \<Rightarrow>
                   if k = ''id'' then getP member ''id''
                   else if k = ''name'' then getP member ''name''
                   else if k = ''type''
                   then getP (getP (getP member ''aspects'') ''terria'') ''type''
                   else JUndefined))"
proof -
  from assms(1) have m: "member \<noteq> JNull" "member \<noteq> JUndefined"
    using getP_falsy_parent by blast+
  show ?thesis
    using assms
    by (simp add: magdaMember_def getProp_defined [OF m] Let_def map_of_spread map_add_def
          split: option.splits)
qed

lemma loadMagdaConfig_array:
  assumes ms: "getP (getP (getP config ''aspects'') ''group'') ''members'' = JArr ms"
    and ns: "mapMembers ms = Inr ns"
  shows "loadMagdaConfig d t config =
     (case fst (updateModelFromJson d (catalogGroup t) CommonStrata_definition
                  (JObj [(''members'', JArr ns)])) of
        Inl e \<Rightarrow> Inl e
      | Inr u \<Rightarrow> Inr JUndefined,
      t\<lparr>catalogGroup := snd (updateModelFromJson d (catalogGroup t) CommonStrata_definition
                  (JObj [(''members'', JArr ns)]))\<rparr>)"
proof -
  from ms have g: "getP (getP config ''aspects'') ''group'' \<noteq> JNull"
      "getP (getP config ''aspects'') ''group'' \<noteq> JUndefined"
    using getP_JArr_parent by blast+
  then have tg: "truthy (getP (getP config ''aspects'') ''group'')"
    using ms by (cases "getP (getP config ''aspects'') ''group''") simp_all
  then have a: "getP config ''aspects'' \<noteq> JNull" "getP config ''aspects'' \<noteq> JUndefined"
    using getP_falsy_parent by blast+
  then have c: "config \<noteq> JNull" "config \<noteq> JUndefined"
    by (cases config; simp)+
  show ?thesis
    by (simp add: loadMagdaConfig_def getProp_defined [OF c] getProp_defined [OF a] tg ms ns
          split: prod.splits)
qed

text \<open>
  C5 (amended). When \<open>aspects.group.members\<close> of the configuration is an array and
  no member is \<open>null\<close>, \<open>loadMagdaConfig\<close> maps every member and merges the
  result as \<open>members\<close> into the catalog group at the definition stratum. A member
  whose \<open>aspects\<close> or \<open>aspects.terria\<close> is missing (falsy) maps to
  \<open>undefined\<close>. A member with \<open>aspects.group\<close> maps to a node of type
  \<open>magda-group\<close> with the member's id, name and (as \<open>groupId\<close>) id, whose
  \<open>definition\<close> has the properties of \<open>terria.definition\<close> and, where that has
  none of the name, \<open>terria.type\<close> as \<open>type\<close> and the group's members as
  \<open>members\<close>. Every other member maps to a node that has the properties of
  \<open>terria.definition\<close> and, where that has none of the name, the member's
  \<open>id\<close> and \<open>name\<close> and \<open>terria.type\<close> as \<open>type\<close>: the spread comes
  last and overrides.
\<close>

theorem loadMagdaConfig_members:
  "(getP (getP (getP config ''aspects'') ''group'') ''members'' = JArr ms \<and>
    list_all2 (\<lambda>m n. magdaMember m = Inr n) ms ns \<longrightarrow>
      loadMagdaConfig d t config =
        (case fst (updateModelFromJson d (catalogGroup t) CommonStrata_definition
                     (JObj [(''members'', JArr ns)])) of
           Inl e \<Rightarrow> Inl e
         | Inr u \<Rightarrow> Inr JUndefined,
         t\<lparr>catalogGroup := snd (updateModelFromJson d (catalogGroup t) CommonStrata_definition
                     (JObj [(''members'', JArr ns)]))\<rparr>)) \<and>
   (member \<noteq> JNull \<and> member \<noteq> JUndefined \<and>
    (\<not> truthy (getP member ''aspects'') \<or>
     \<not> truthy (getP (getP member ''aspects'') ''terria'')) \<longrightarrow>
      magdaMember member = Inr JUndefined) \<and>
   (truthy (getP member ''aspects'') \<and>
    truthy (getP (getP member ''aspects'') ''terria'') \<and>
    truthy (getP (getP member ''aspects'') ''group'') \<longrightarrow>
      (\<exists>node. magdaMember member = Inr node \<and>
         getP node ''type'' = JStr ''magda-group'' \<and>
         getP node ''id'' = getP member ''id'' \<and>
         getP node ''name'' = getP member ''name'' \<and>
         getP node ''groupId'' = getP member ''id'' \<and>
         (\<forall>k. getP (getP node ''definition'') k =
            (case map_of (ownEntries
                   (getP (getP (getP member ''aspects'') ''terria'') ''definition'')) k of
               Some x \<Rightarrow> x
             | None \<Rightarrow>
                 if k = ''type'' then getP (getP (getP member ''aspects'') ''terria'') ''type''
                 else if k = ''members''
                 then getP (getP (getP member ''aspects'') ''group'') ''members''
                 else JUndefined)))) \<and>
   (truthy (getP member ''aspects'') \<and>
    truthy (getP (getP member ''aspects'') ''terria'') \<and>
    \<not> truthy (getP (getP member ''aspects'') ''group'') \<longrightarrow>
      (\<exists>node. magdaMember member = Inr node \<and>
         (\<forall>k. getP node k =
            (case map_of (ownEntries
                   (getP (getP (getP member ''aspects'') ''terria'') ''definition'')) k of
               Some x \<Rightarrow> x
             | None \<Rightarrow>
                 if k = ''id'' then getP member ''id''
                 else if k = ''name'' then getP member ''name''
                 else if k = ''type''
                 then getP (getP (getP member ''aspects'') ''terria'') ''type''
                 else JUndefined))))"
  using loadMagdaConfig_array [of config ms ns d t] magdaMember_without [of member]
    magdaMember_group [of member] magdaMember_item [of member]
  unfolding mapMembers_Inr
  by blast

theorem loadMagdaConfig_members_witness:
  "loadMagdaConfig
     \<lparr>loadJson5 = (\<lambda>u. Inl (OtherError ''none'')),
      updateModelFromJson = (\<lambda>g s j. (Inr (), g @ [(s, j)])),
      uri_new = (\<lambda>s. Inr s), uri_filename = (\<lambda>u f. Inr u),
      uri_absoluteTo = (\<lambda>u b. Inr (b @ u)), uri_toString = (\<lambda>u. u)\<rparr>
     \<lparr>models = Map.empty, mainViewer = None, appName = None, userProperties = Map.empty,
      stories = JArr [], catalogGroup = []\<rparr>
     (JObj [(''aspects'', JObj [(''group'', JObj [(''members'', JArr
        [JObj [(''id'', JStr ''z'')],
         JObj [(''id'', JStr ''m''), (''name'', JStr ''n''),
               (''aspects'', JObj [(''terria'', JObj [(''type'', JStr ''csv''),
                  (''definition'', JObj [(''url'', JStr ''u'')])])])]])])])])
   = (Inr JUndefined,
      \<lparr>models = Map.empty, mainViewer = None, appName = None, userProperties = Map.empty,
       stories = JArr [],
       catalogGroup = [(''definition'', JObj [(''members'', JArr
         [JUndefined,
          JObj [(''id'', JStr ''m''), (''name'', JStr ''n''), (''type'', JStr ''csv''),
                (''url'', JStr ''u'')]])])]\<rparr>) \<and>
   magdaMember (JObj [(''id'', JStr ''z'')]) = Inr JUndefined \<and>
   magdaMember
     (JObj [(''id'', JStr ''g''), (''name'', JStr ''G''),
            (''aspects'', JObj [(''group'', JObj [(''members'', JArr [JStr ''r''])]),
               (''terria'', JObj [(''type'', JStr ''group''),
                  (''definition'', JObj [(''isOpen'', JBool True)])])])])
   = Inr (JObj [(''id'', JStr ''g''), (''name'', JStr ''G''), (''type'', JStr ''magda-group''),
                (''url'', JStr ''http://saas.terria.io''), (''groupId'', JStr ''g''),
                (''definition'', JObj [(''type'', JStr ''group''),
                   (''members'', JArr [JStr ''r'']), (''isOpen'', JBool True)])]) \<and>
   magdaMember
     (JObj [(''id'', JStr ''m''), (''name'', JStr ''n''),
            (''aspects'', JObj [(''terria'', JObj [(''type'', JStr ''csv''),
               (''definition'', JObj [(''url'', JStr ''u'')])])])])
   = Inr (JObj [(''id'', JStr ''m''), (''name'', JStr ''n''), (''type'', JStr ''csv''),
                (''url'', JStr ''u'')])"
proof -
  let ?d = "\<lparr>loadJson5 = (\<lambda>u. Inl (OtherError ''none'')),
      updateModelFromJson = (\<lambda>g s j. (Inr (), g @ [(s, j)])),
      uri_new = (\<lambda>s. Inr s), uri_filename = (\<lambda>u f. Inr u),
      uri_absoluteTo = (\<lambda>u b. Inr (b @ u)), uri_toString = (\<lambda>u. u)\<rparr>
      :: (string, (string \<times> json) list) Deps"
  let ?t = "\<lparr>models = Map.empty, mainViewer = None, appName = None,
      userProperties = Map.empty, stories = JArr [], catalogGroup = []\<rparr>
      :: (string \<times> json) list Terria"
  let ?m1 = "JObj [(''id'', JStr ''z'')]"
  let ?m2 = "JObj [(''id'', JStr ''g''), (''name'', JStr ''G''),
            (''aspects'', JObj [(''group'', JObj [(''members'', JArr [JStr ''r''])]),
               (''terria'', JObj [(''type'', JStr ''group''),
                  (''definition'', JObj [(''isOpen'', JBool True)])])])]"
  let ?m3 = "JObj [(''id'', JStr ''m''), (''name'', JStr ''n''),
            (''aspects'', JObj [(''terria'', JObj [(''type'', JStr ''csv''),
               (''definition'', JObj [(''url'', JStr ''u'')])])])]"
  let ?n3 = "JObj [(''id'', JStr ''m''), (''name'', JStr ''n''), (''type'', JStr ''csv''),
                (''url'', JStr ''u'')]"
  let ?c = "JObj [(''aspects'', JObj [(''group'', JObj [(''members'', JArr [?m1, ?m3])])])]"
  have m1: "magdaMember ?m1 = Inr JUndefined"
    by (simp add: magdaMember_def)
  have m3: "magdaMember ?m3 = Inr ?n3"
    by (simp add: magdaMember_def spread_def)
  have m2: "magdaMember ?m2 =
      Inr (JObj [(''id'', JStr ''g''), (''name'', JStr ''G''), (''type'', JStr ''magda-group''),
                (''url'', JStr ''http://saas.terria.io''), (''groupId'', JStr ''g''),
                (''definition'', JObj [(''type'', JStr ''group''),
                   (''members'', JArr [JStr ''r'']), (''isOpen'', JBool True)])])"
    by (simp add: magdaMember_def spread_def)
  have l: "list_all2 (\<lambda>m n. magdaMember m = Inr n) [?m1, ?m3] [JUndefined, ?n3]"
    using m1 m3 by simp
  have a: "getP (getP (getP ?c ''aspects'') ''group'') ''members'' = JArr [?m1, ?m3]"
    by simp
  from loadMagdaConfig_members [of ?c "[?m1, ?m3]" "[JUndefined, ?n3]" ?d ?t ?m1] a l
  have "loadMagdaConfig ?d ?t ?c =
      (Inr JUndefined, ?t\<lparr>catalogGroup := [(''definition'',
          JObj [(''members'', JArr [JUndefined, ?n3])])]\<rparr>)"
    by (simp add: CommonStrata_definition_def)
  with m1 m2 m3 show ?thesis by simp
qed

text \<open>
  C5, as stated, fails for a member whose \<open>terria.definition\<close> has an \<open>id\<close>:
  the node then has that id, not the member's.
\<close>

theorem magdaMember_id_counterexample:
  "magdaMember
     (JObj [(''id'', JStr ''m''), (''name'', JStr ''n''),
            (''aspects'', JObj [(''terria'', JObj [(''type'', JStr ''csv''),
               (''definition'', JObj [(''id'', JStr ''x'')])])])])
   = Inr (JObj [(''id'', JStr ''x''), (''name'', JStr ''n''), (''type'', JStr ''csv'')]) \<and>
   getP (JObj [(''id'', JStr ''x''), (''name'', JStr ''n''), (''type'', JStr ''csv'')]) ''id''
   \<noteq> getP
     (JObj [(''id'', JStr ''m''), (''name'', JStr ''n''),
            (''aspects'', JObj [(''terria'', JObj [(''type'', JStr ''csv''),
               (''definition'', JObj [(''id'', JStr ''x'')])])])]) ''id''"
  by (simp add: magdaMember_def spread_def)

section \<open>Initialization URLs: properties\<close>


lemma buildInitUrl_InitString:
  "buildInitUrlFromFragment d path (InitString s) = uri_new d (path @ ''undefined.json'')"
  by (simp add: buildInitUrlFromFragment_def jsString_def split: sum.splits)


text \<open>
  C7. An entry that does not end in \<open>.json\<close> is requested at
  \<open>init/\<close> + entry + \<open>.json\<close> resolved against the base URI, as claimed
  (\<open>fragment_entry_request\<close>). For an entry that ends in \<open>.json\<close> the claim
  asks for the entry resolved against the base URI; \<open>generateInitializationUrl\<close>
  computes that string, but \<open>start\<close> hands it to \<open>buildInitUrlFromFragment\<close>,
  which reads \<open>initFragment\<close> and \<open>baseUri\<close> of the string, both
  \<open>undefined\<close>: unless URI.js throws on the way, the URL requested is
  \<open>init/undefined.json\<close>, unresolved, whatever the entry and the base.
\<close>

theorem json_entry_request:
  assumes "substring (toLowerCase url) (int (length url) - 5) = ''.json''"
  shows "initUrl d b url =
       (case uri_new d url of
          Inl e \<Rightarrow> Inl e
        | Inr u \<Rightarrow>
            (case uri_absoluteTo d u b of
               Inl e \<Rightarrow> Inl e
             | Inr a \<Rightarrow>
                 (case uri_new d ''init/undefined.json'' of
                    Inl e \<Rightarrow> Inl e
                  | Inr v \<Rightarrow> Inr (uri_toString d v))))"
proof -
  have "\<not> substring (toLowerCase url) (int (length url) - 5) \<noteq> ''.json''"
    using assms by blast
  then have g: "generateInitializationUrl d b url =
      (case uri_new d url of
         Inl e \<Rightarrow> Inl e
       | Inr u \<Rightarrow>
           (case uri_absoluteTo d u b of
              Inl e \<Rightarrow> Inl e
            | Inr a \<Rightarrow> Inr (InitString (uri_toString d a))))"
    unfolding generateInitializationUrl_def by (rule if_not_P)
  show ?thesis
    unfolding initUrl_def g
    by (simp add: buildInitUrl_InitString split: sum.splits)
qed

theorem json_entry_request_witness:
  "substring (toLowerCase ''catalog.json'') (int (length ''catalog.json'') - 5) = ''.json'' \<and>
   initUrl
     \<lparr>loadJson5 = (\<lambda>u. Inl (OtherError ''none'')),
      updateModelFromJson = (\<lambda>g s j. (Inr (), g @ [(s, j)])),
      uri_new = (\<lambda>s. Inr s), uri_filename = (\<lambda>u f. Inr u),
      uri_absoluteTo = (\<lambda>u b. Inr (b @ u)), uri_toString = (\<lambda>u. u)\<rparr>
     ''http://host/app/'' ''catalog.json''
     = Inr ''init/undefined.json'' \<and>
   uri_absoluteTo
     \<lparr>loadJson5 = (\<lambda>u. Inl (OtherError ''none'')),
      updateModelFromJson = (\<lambda>g s j. (Inr (), g @ [(s, j)])),
      uri_new = (\<lambda>s. Inr s), uri_filename = (\<lambda>u f. Inr u),
      uri_absoluteTo = (\<lambda>u b. Inr (b @ u)), uri_toString = (\<lambda>u. u)\<rparr>
     ''catalog.json'' ''http://host/app/''
     = Inr ''http://host/app/catalog.json''"
proof -
  let ?d = "\<lparr>loadJson5 = (\<lambda>u. Inl (OtherError ''none'')),
      updateModelFromJson = (\<lambda>g s j. (Inr (), g @ [(s, j)])),
      uri_new = (\<lambda>s. Inr s), uri_filename = (\<lambda>u f. Inr u),
      uri_absoluteTo = (\<lambda>u b. Inr (b @ u)), uri_toString = (\<lambda>u. u)\<rparr>
      :: (string, (string \<times> json) list) Deps"
  have h: "substring (toLowerCase ''catalog.json'') (int (length ''catalog.json'') - 5) = ''.json''"
    by (simp add: substring_def toLowerCase_def toLowerChar_def)
  show ?thesis
    using h json_entry_request [OF h, of ?d "''http://host/app/''"]
    by simp
qed

section \<open>Starting: properties\<close>














end
